theory Spec2Isabelle
  imports Complex_Main "HOL-Library.Sublist"
begin

section \<open>The MCP gateway of \<^verbatim>\<open>mcp-server/mcp_server_node.js\<close>\<close>

text \<open>
  The gateway is one Express handler, \<^verbatim>\<open>app.post('/', async (req, res) => ...)\<close>.
  It reads the parsed JSON body of the request, routes on \<^verbatim>\<open>method\<close>, and for
  \<^verbatim>\<open>tools/call\<close> of \<^verbatim>\<open>ask_rag\<close> first awaits \<^verbatim>\<open>requirePayment\<close> and then
  \<^verbatim>\<open>fetch\<close>es the RAG backend. The model below follows the handler statement by
  statement. What the handler does to the outside world (the payment request, the
  backend request, the response) is recorded as a list of events in the order the
  statements run; an exception is a value.
\<close>

subsection \<open>JavaScript values\<close>

text \<open>
  The values the handler can see: what \<^verbatim>\<open>JSON.parse\<close> produces, and \<^verbatim>\<open>undefined\<close>
  for a property that is not there. A number is kept as the text JavaScript prints
  for it (\<^verbatim>\<open>String(n)\<close>), which identifies it: the handler never computes with a
  number of the request, it only compares, prints or echoes it. An object is the list
  of its own properties.
\<close>

datatype js =
    JUndefined
  | JNull
  | JBool bool
  | JNum string
  | JStr string
  | JArr "js list"
  | JObj "(string \<times> js) list"

text \<open>
  The faults the JavaScript engine raises in this handler, all of them \<^verbatim>\<open>TypeError\<close>s:
  destructuring or reading a property of \<^verbatim>\<open>undefined\<close> or \<^verbatim>\<open>null\<close> (the name is the
  expression of the source that was \<^verbatim>\<open>undefined\<close> or \<^verbatim>\<open>null\<close>), and converting to a
  string an object that has no usable \<^verbatim>\<open>toString\<close>.
\<close>

datatype fault =
    NullishAccess string js
  | NotPrimitive

text \<open>
  A thrown value: an \<^verbatim>\<open>Error\<close> with its message (\<^verbatim>\<open>new Error(...)\<close> of the handler,
  or an error of the payment library or of \<^verbatim>\<open>node-fetch\<close>), or a \<^verbatim>\<open>TypeError\<close> of
  the engine.
\<close>

datatype thrown =
    Error string
  | TypeError fault

definition nullish :: "js \<Rightarrow> bool" where
  "nullish v = (v = JUndefined \<or> v = JNull)"

text \<open>
  \<^verbatim>\<open>v.k\<close> (and the property \<^verbatim>\<open>k\<close> in a destructuring pattern) for \<^verbatim>\<open>v\<close> neither
  \<^verbatim>\<open>undefined\<close> nor \<^verbatim>\<open>null\<close>, and \<^verbatim>\<open>k\<close> one of the names the handler reads
  (\<^verbatim>\<open>method\<close>, \<^verbatim>\<open>params\<close>, \<^verbatim>\<open>id\<close>, \<^verbatim>\<open>name\<close>, \<^verbatim>\<open>arguments\<close>, \<^verbatim>\<open>question\<close>, \<^verbatim>\<open>mode\<close>,
  \<^verbatim>\<open>answer\<close>): none of them is inherited from a prototype of a JSON value, so
  the result is the own property of an object and \<^verbatim>\<open>undefined\<close> otherwise.
\<close>

definition get :: "js \<Rightarrow> string \<Rightarrow> js" where
  "get v k = (case v of
      JObj kvs \<Rightarrow> (case map_of kvs k of Some x \<Rightarrow> x | None \<Rightarrow> JUndefined)
    | _ \<Rightarrow> JUndefined)"

text \<open>
  \<^verbatim>\<open>ToString\<close>, as a template literal \<^verbatim>\<open>`${v}`\<close> and a computed property key
  \<^verbatim>\<open>o[v]\<close> apply it. An array is joined with commas, \<^verbatim>\<open>null\<close> and \<^verbatim>\<open>undefined\<close>
  elements printing as nothing. A plain object prints as \<^verbatim>\<open>[object Object]\<close>
  through \<^verbatim>\<open>Object.prototype.toString\<close>; when it has an own property \<^verbatim>\<open>toString\<close>
  (never callable in a JSON value), neither that nor \<^verbatim>\<open>valueOf\<close> yields a primitive
  and the engine throws a \<^verbatim>\<open>TypeError\<close>.
\<close>

fun to_string :: "js \<Rightarrow> thrown + string"
  and join :: "js list \<Rightarrow> thrown + string" where
  "to_string JUndefined = Inr ''undefined''"
| "to_string JNull = Inr ''null''"
| "to_string (JBool b) = Inr (if b then ''true'' else ''false'')"
| "to_string (JNum s) = Inr s"
| "to_string (JStr s) = Inr s"
| "to_string (JArr xs) = join xs"
| "to_string (JObj kvs) =
     (if ''toString'' \<in> set (map fst kvs) then Inl (TypeError NotPrimitive)
      else Inr ''[object Object]'')"
| "join [] = Inr ''''"
| "join (x # xs) =
     (case (if nullish x then Inr '''' else to_string x) of
        Inl e \<Rightarrow> Inl e
      | Inr s \<Rightarrow>
          (if xs = [] then Inr s
           else (case join xs of Inl e \<Rightarrow> Inl e | Inr t \<Rightarrow> Inr (s @ '','' @ t))))"

text \<open>
  \<^verbatim>\<open>JSON.stringify\<close> of an object literal leaves out the properties whose value is
  \<^verbatim>\<open>undefined\<close>.
\<close>

definition stringify_object :: "(string \<times> js) list \<Rightarrow> js" where
  "stringify_object kvs = JObj (filter (\<lambda>kv. snd kv \<noteq> JUndefined) kvs)"

text \<open>The decimal text of a natural number, for \<^verbatim>\<open>`${response.status}`\<close>.\<close>

function show_nat :: "nat \<Rightarrow> string" where
  "show_nat n =
     (if n < 10 then [''0123456789'' ! n]
      else show_nat (n div 10) @ [''0123456789'' ! (n mod 10)])"
  by pat_completeness auto
termination
  by (relation "measure (\<lambda>n. n)") auto

declare show_nat.simps [simp del]

subsection \<open>The price table and the collaborators\<close>

text \<open>
  \<^verbatim>\<open>prices[mode]\<close>. The table is the object literal of the handler, with a
  \<^verbatim>\<open>BigNumber\<close> for each of \<^verbatim>\<open>qa\<close>, \<^verbatim>\<open>summary\<close> and \<^verbatim>\<open>auto\<close>. The key is
  \<^verbatim>\<open>mode\<close> converted to a string. A key that is not in the table reads
  \<^verbatim>\<open>undefined\<close>, unless it names a member of \<^verbatim>\<open>Object.prototype\<close>, which the
  object literal inherits.
\<close>

datatype price =
    BigNumber rat
  | PriceUndefined
  | Inherited string

definition object_prototype_names :: "string list" where
  "object_prototype_names =
     [''constructor'', ''__defineGetter__'', ''__defineSetter__'', ''hasOwnProperty'',
      ''__lookupGetter__'', ''__lookupSetter__'', ''isPrototypeOf'',
      ''propertyIsEnumerable'', ''toString'', ''valueOf'', ''__proto__'',
      ''toLocaleString'']"

definition price_table :: "(string \<times> price) list" where
  "price_table =
     [(''qa'', BigNumber (1 / 100)),
      (''summary'', BigNumber (5 / 100)),
      (''auto'', BigNumber (5 / 100))]"

definition prices :: "js \<Rightarrow> thrown + price" where
  "prices mode =
     (case to_string mode of
        Inl e \<Rightarrow> Inl e
      | Inr k \<Rightarrow>
          (case map_of price_table k of
             Some p \<Rightarrow> Inr p
           | None \<Rightarrow>
               if k \<in> set object_prototype_names then Inr (Inherited k)
               else Inr PriceUndefined))"

text \<open>
  The reply of the backend as \<^verbatim>\<open>node-fetch\<close> hands it over: the status, and what
  \<^verbatim>\<open>response.json()\<close> gives (the parsed body, or the error it rejects with).
  \<^verbatim>\<open>response.ok\<close> is \<^verbatim>\<open>node-fetch\<close>'s getter: a status from 200 to 299.
\<close>

record response =
  status :: nat
  json :: "thrown + js"

definition ok :: "response \<Rightarrow> bool" where
  "ok r = (200 \<le> status r \<and> status r < 300)"

text \<open>
  The collaborators of one run of the handler. \<^verbatim>\<open>requirePayment\<close> of
  \<^verbatim>\<open>@atxp/express\<close> is given \<^verbatim>\<open>{ price: prices[mode] }\<close> and either resolves
  (\<open>None\<close>) or throws; \<^verbatim>\<open>fetch\<close> is given the address and the object that is
  \<^verbatim>\<open>JSON.stringify\<close>ed into the body (the method is always \<^verbatim>\<open>POST\<close>, the content
  type always JSON) and either resolves to a response or rejects. Both are assumed to
  settle. \<open>type_error_message\<close> is the text the engine gives to the \<^verbatim>\<open>message\<close> of
  a \<^verbatim>\<open>TypeError\<close> it raises.
\<close>

record world =
  requirePayment :: "price \<Rightarrow> thrown option"
  fetch :: "string \<Rightarrow> js \<Rightarrow> thrown + response"
  type_error_message :: "fault \<Rightarrow> string"

text \<open>\<^verbatim>\<open>error.message\<close>\<close>

definition message :: "world \<Rightarrow> thrown \<Rightarrow> string" where
  "message w e = (case e of Error m \<Rightarrow> m | TypeError f \<Rightarrow> type_error_message w f)"

subsection \<open>Responses and events\<close>

text \<open>
  The object given to \<^verbatim>\<open>res.json\<close>: \<^verbatim>\<open>{ jsonrpc, id, result }\<close> or
  \<^verbatim>\<open>{ jsonrpc, id, error: { code, message } }\<close>. An \<^verbatim>\<open>id\<close> that is \<^verbatim>\<open>undefined\<close>
  is left out of the JSON text that is sent.
\<close>

datatype rpc_body =
    RpcResult js
  | RpcError int string

datatype envelope = Envelope (jsonrpc: string) (envelope_id: js) (body: rpc_body)

text \<open>
  What a run does, in order: \<^verbatim>\<open>await requirePayment({ price })\<close>,
  \<^verbatim>\<open>await fetch(url, { method: 'POST', ..., body })\<close>, \<^verbatim>\<open>res.json(envelope)\<close>,
  \<^verbatim>\<open>res.status(n).end()\<close>. Logging is left out, except that a log line whose
  template throws ends the run like any other statement.
\<close>

datatype event =
    RequirePayment price
  | Fetch string js
  | ResJson envelope
  | ResEnd nat

text \<open>
  A run of a block of statements: the events it caused, and the value it threw if it
  ended by throwing.
\<close>

type_synonym run = "event list \<times> thrown option"

subsection \<open>The handler\<close>

definition RAG_BASE_URL :: string where
  "RAG_BASE_URL = ''http://localhost:8000''"

definition RAG_ASK_ENDPOINT :: string where
  "RAG_ASK_ENDPOINT = RAG_BASE_URL @ ''/ask/''"

text \<open>The \<^verbatim>\<open>result\<close> of \<^verbatim>\<open>initialize\<close>.\<close>

definition initialize_result :: js where
  "initialize_result =
     JObj [(''protocolVersion'', JStr ''2024-11-05''),
           (''capabilities'', JObj [(''tools'', JObj [])]),
           (''serverInfo'',
              JObj [(''name'', JStr ''interview-rag-server''),
                    (''version'', JStr ''1.0.0'')])]"

text \<open>The \<^verbatim>\<open>result\<close> of \<^verbatim>\<open>tools/list\<close>.\<close>

definition tools_list_result :: js where
  "tools_list_result =
     JObj [(''tools'',
       JArr [JObj
        [(''name'', JStr ''ask_rag''),
         (''description'', JStr ''Ask questions about uploaded documents''),
         (''inputSchema'',
            JObj [(''type'', JStr ''object''),
                  (''properties'',
                     JObj [(''question'',
                              JObj [(''type'', JStr ''string''),
                                    (''description'', JStr ''Your question'')]),
                           (''mode'',
                              JObj [(''type'', JStr ''string''),
                                    (''enum'',
                                       JArr [JStr ''auto'', JStr ''qa'', JStr ''summary'']),
                                    (''description'', JStr ''Answer mode''),
                                    (''default'', JStr ''auto'')])]),
                  (''required'', JArr [JStr ''question''])])]])]"

text \<open>
  The text of the answer:
  \<^verbatim>\<open>`Question: ${question}\nMode: ${data.mode}\n\nAnswer:\n${data.answer}`\<close>,
  given the three substitutions already as strings.
\<close>

definition answer_text :: "string \<Rightarrow> string \<Rightarrow> string \<Rightarrow> string" where
  "answer_text q m a =
     ''Question: '' @ q @ [CHR 0x0A] @ ''Mode: '' @ m @ [CHR 0x0A, CHR 0x0A]
       @ ''Answer:'' @ [CHR 0x0A] @ a"

text \<open>
  The statements after the payment was validated: the log line (its template converts
  \<^verbatim>\<open>question\<close> to a string), the \<^verbatim>\<open>fetch\<close>, the check of \<^verbatim>\<open>response.ok\<close>,
  \<^verbatim>\<open>response.json()\<close> and the reply. The substitutions of the answer template are
  converted from left to right; \<^verbatim>\<open>question\<close> converts there as it did in the log line.
\<close>

definition forward :: "world \<Rightarrow> js \<Rightarrow> js \<Rightarrow> js \<Rightarrow> run" where
  "forward w rid question mode =
     (case to_string question of
        Inl e \<Rightarrow> ([], Some e)
      | Inr q \<Rightarrow>
          let payload = stringify_object [(''question'', question), (''mode'', mode)];
              sent = [Fetch RAG_ASK_ENDPOINT payload]
          in (case fetch w RAG_ASK_ENDPOINT payload of
                Inl e \<Rightarrow> (sent, Some e)
              | Inr response \<Rightarrow>
                  if \<not> ok response
                  then (sent, Some (Error (''RAG backend returned '' @ show_nat (status response))))
                  else (case json response of
                          Inl e \<Rightarrow> (sent, Some e)
                        | Inr data \<Rightarrow>
                            if nullish data
                            then (sent, Some (TypeError (NullishAccess ''data'' data)))
                            else (case to_string (get data ''mode'') of
                                    Inl e \<Rightarrow> (sent, Some e)
                                  | Inr m \<Rightarrow>
                                      (case to_string (get data ''answer'') of
                                         Inl e \<Rightarrow> (sent, Some e)
                                       | Inr a \<Rightarrow>
                                           (sent @
                                            [ResJson (Envelope ''2.0'' rid
                                               (RpcResult
                                                 (JObj [(''content'',
                                                    JArr [JObj [(''type'', JStr ''text''),
                                                                (''text'', JStr (answer_text q m a))]])])))],
                                            None))))))"

text \<open>
  \<^verbatim>\<open>mode = 'auto'\<close> in the destructuring pattern of \<^verbatim>\<open>args\<close>: the default applies
  when the property reads \<^verbatim>\<open>undefined\<close>.
\<close>

definition resolved_mode :: "js \<Rightarrow> js" where
  "resolved_mode args =
     (if get args ''mode'' = JUndefined then JStr ''auto'' else get args ''mode'')"

text \<open>
  The branch \<^verbatim>\<open>name === 'ask_rag'\<close>: the destructuring of \<^verbatim>\<open>args\<close>, the price,
  the payment with its own \<^verbatim>\<open>try\<close>/\<^verbatim>\<open>catch\<close>, and the statements after it.
\<close>

definition ask_rag :: "world \<Rightarrow> js \<Rightarrow> js \<Rightarrow> run" where
  "ask_rag w rid args =
     (if nullish args then ([], Some (TypeError (NullishAccess ''args'' args)))
      else
        let question = get args ''question'';
            mode = resolved_mode args
        in (case prices mode of
              Inl e \<Rightarrow> ([], Some e)
            | Inr price \<Rightarrow>
                (case requirePayment w price of
                   Some paymentError \<Rightarrow>
                     ([RequirePayment price,
                       ResJson (Envelope ''2.0'' rid
                         (RpcError (- 32603) (''Payment failed: '' @ message w paymentError)))],
                      None)
                 | None \<Rightarrow>
                     (case forward w rid question mode of
                        (evs, r) \<Rightarrow> (RequirePayment price # evs, r)))))"

text \<open>The branch \<^verbatim>\<open>method === 'tools/call'\<close>.\<close>

definition tools_call :: "world \<Rightarrow> js \<Rightarrow> js \<Rightarrow> run" where
  "tools_call w rid params =
     (if nullish params then ([], Some (TypeError (NullishAccess ''params'' params)))
      else
        let name = get params ''name'';
            args = get params ''arguments''
        in if name = JStr ''ask_rag'' then ask_rag w rid args
           else (case to_string name of
                   Inl e \<Rightarrow> ([], Some e)
                 | Inr s \<Rightarrow>
                     ([ResJson (Envelope ''2.0'' rid (RpcError (- 32601) (''Unknown tool: '' @ s)))],
                      None)))"

text \<open>The body of the outer \<^verbatim>\<open>try\<close>.\<close>

definition dispatch :: "world \<Rightarrow> js \<Rightarrow> run" where
  "dispatch w req_body =
     (if nullish req_body then ([], Some (TypeError (NullishAccess ''req.body'' req_body)))
      else
        let method = get req_body ''method'';
            params = get req_body ''params'';
            rid = get req_body ''id''
        in if method = JStr ''initialize''
           then ([ResJson (Envelope ''2.0'' rid (RpcResult initialize_result))], None)
           else if method = JStr ''notifications/initialized''
           then ([ResEnd 200], None)
           else if method = JStr ''tools/list''
           then ([ResJson (Envelope ''2.0'' rid (RpcResult tools_list_result))], None)
           else if method = JStr ''tools/call''
           then tools_call w rid params
           else (case to_string method of
                   Inl e \<Rightarrow> ([], Some e)
                 | Inr s \<Rightarrow>
                     ([ResJson (Envelope ''2.0'' rid (RpcError (- 32601) (''Unknown method: '' @ s)))],
                      None)))"

text \<open>
  The outer \<^verbatim>\<open>catch\<close>, applied to the run of the \<^verbatim>\<open>try\<close> body: it reads
  \<^verbatim>\<open>req.body.id\<close> again and replies with \<^verbatim>\<open>error.message\<close>.
\<close>

definition top_level_catch :: "world \<Rightarrow> js \<Rightarrow> run \<Rightarrow> run" where
  "top_level_catch w req_body r =
     (case r of
        (evs, None) \<Rightarrow> (evs, None)
      | (evs, Some error) \<Rightarrow>
          if nullish req_body
          then (evs, Some (TypeError (NullishAccess ''req.body'' req_body)))
          else (evs @
                [ResJson (Envelope ''2.0'' (get req_body ''id'')
                   (RpcError (- 32603) (message w error)))],
                None))"

text \<open>
  The handler. A run that ends with \<open>Some e\<close> is the handler's promise rejecting
  with \<open>e\<close>; the handler has then written no response.
\<close>

definition handler :: "world \<Rightarrow> js \<Rightarrow> run" where
  "handler w req_body = top_level_catch w req_body (dispatch w req_body)"

subsection \<open>Observations on a run\<close>

fun is_payment :: "event \<Rightarrow> bool" where
  "is_payment (RequirePayment p) = True"
| "is_payment e = False"

fun is_fetch :: "event \<Rightarrow> bool" where
  "is_fetch (Fetch u b) = True"
| "is_fetch e = False"


text \<open>The envelopes written with \<^verbatim>\<open>res.json\<close>, in order.\<close>

fun envelopes :: "event list \<Rightarrow> envelope list" where
  "envelopes [] = []"
| "envelopes (ResJson e # evs) = e # envelopes evs"
| "envelopes (ev # evs) = envelopes evs"

text \<open>The error codes of the envelopes of a run.\<close>

fun error_codes :: "envelope list \<Rightarrow> int list" where
  "error_codes [] = []"
| "error_codes (Envelope v i (RpcError c m) # es) = c # error_codes es"
| "error_codes (e # es) = error_codes es"

subsection \<open>Worlds and requests to run the handler on\<close>

text \<open>
  A text for each \<^verbatim>\<open>TypeError\<close> of the engine. Which text the engine uses matters
  to no statement below.
\<close>

fun engine_text :: "fault \<Rightarrow> string" where
  "engine_text NotPrimitive = ''Cannot convert object to primitive value''"
| "engine_text (NullishAccess x v) =
     x @ '' is '' @ (if v = JNull then ''null'' else ''undefined'')"

text \<open>The backend answers 200 with \<^verbatim>\<open>{ mode: "qa", answer: "42" }\<close>.\<close>

definition backend_42 :: "string \<Rightarrow> js \<Rightarrow> thrown + response" where
  "backend_42 url payload =
     Inr \<lparr> status = 200,
           json = Inr (JObj [(''mode'', JStr ''qa''), (''answer'', JStr ''42'')]) \<rparr>"

text \<open>The payment is authorized and the backend answers.\<close>

definition world_paid :: world where
  "world_paid =
     \<lparr> requirePayment = (\<lambda>p. None), fetch = backend_42, type_error_message = engine_text \<rparr>"

text \<open>The payment library throws.\<close>

definition world_denied :: world where
  "world_denied =
     \<lparr> requirePayment = (\<lambda>p. Some (Error ''Payment required'')),
       fetch = backend_42, type_error_message = engine_text \<rparr>"

text \<open>The payment is authorized and the backend answers 500.\<close>

definition world_backend_500 :: world where
  "world_backend_500 =
     \<lparr> requirePayment = (\<lambda>p. None),
       fetch = (\<lambda>url payload. Inr \<lparr> status = 500, json = Inl (Error ''invalid json'') \<rparr>),
       type_error_message = engine_text \<rparr>"

text \<open>A request envelope with id 1.\<close>

definition request :: "string \<Rightarrow> js \<Rightarrow> js" where
  "request method params =
     JObj [(''jsonrpc'', JStr ''2.0''), (''id'', JNum ''1''),
           (''method'', JStr method), (''params'', params)]"

text \<open>A \<^verbatim>\<open>tools/call\<close> of \<^verbatim>\<open>ask_rag\<close>.\<close>

definition call_ask_rag :: "js \<Rightarrow> js" where
  "call_ask_rag args =
     request ''tools/call'' (JObj [(''name'', JStr ''ask_rag''), (''arguments'', args)])"

text \<open>The call of the spec's round trip: the question and the mode \<^verbatim>\<open>qa\<close>.\<close>

definition args_42 :: js where
  "args_42 = JObj [(''question'', JStr ''What is the answer?''), (''mode'', JStr ''qa'')]"

text \<open>
  A call whose \<^verbatim>\<open>question\<close> is the object \<^verbatim>\<open>{ "toString": 1 }\<close>: a template
  literal cannot convert it to a string.
\<close>

definition args_unprintable :: js where
  "args_unprintable = JObj [(''question'', JObj [(''toString'', JNum ''1'')])]"








section \<open>Properties\<close>

subsection \<open>The shape of a run\<close>

lemmas run_defs =
  handler_def dispatch_def top_level_catch_def tools_call_def ask_rag_def forward_def
  resolved_mode_def prices_def price_table_def object_prototype_names_def get_def
  nullish_def stringify_object_def ok_def answer_text_def RAG_ASK_ENDPOINT_def
  RAG_BASE_URL_def message_def request_def call_ask_rag_def args_42_def
  world_paid_def world_denied_def world_backend_500_def backend_42_def Let_def

lemma get_nullish: "nullish v \<Longrightarrow> get v k = JUndefined"
  by (auto simp: nullish_def get_def)

lemma get_JStr_not_nullish: "get v k = JStr s \<Longrightarrow> \<not> nullish v"
  using get_nullish [of v k] by auto

lemma show_nat_500: "show_nat 500 = ''500''"
  by (simp add: show_nat.simps)

text \<open>What the statements after the payment can do.\<close>

lemma forward_shape:
  "forward w rid q m = (evs, r) \<Longrightarrow>
     (evs = [] \<and> (\<exists>e. r = Some e \<and> to_string q = Inl e)) \<or>
     (\<exists>s. to_string q = Inr s \<and>
        ((\<exists>e. evs = [Fetch RAG_ASK_ENDPOINT
                        (stringify_object [(''question'', q), (''mode'', m)])] \<and>
              r = Some e) \<or>
         (\<exists>res. evs = [Fetch RAG_ASK_ENDPOINT
                          (stringify_object [(''question'', q), (''mode'', m)]),
                        ResJson (Envelope ''2.0'' rid (RpcResult res))] \<and>
                r = None)))"
  unfolding forward_def
  by (auto simp: Let_def split: sum.splits if_splits)

text \<open>What the \<^verbatim>\<open>ask_rag\<close> branch can do once \<^verbatim>\<open>args\<close> is destructured.\<close>

lemma ask_rag_shape:
  assumes "ask_rag w rid args = (evs, r)" and "\<not> nullish args"
  shows "(\<exists>e. prices (resolved_mode args) = Inl e \<and> evs = [] \<and> r = Some e) \<or>
     (\<exists>p. prices (resolved_mode args) = Inr p \<and>
        ((\<exists>e. requirePayment w p = Some e \<and> r = None \<and>
            evs = [RequirePayment p,
                   ResJson (Envelope ''2.0'' rid
                     (RpcError (- 32603) (''Payment failed: '' @ message w e)))]) \<or>
         (\<exists>evs'. requirePayment w p = None \<and> evs = RequirePayment p # evs' \<and>
            forward w rid (get args ''question'') (resolved_mode args) = (evs', r))))"
  using assms unfolding ask_rag_def
  by (auto simp: Let_def split: sum.splits option.splits prod.splits)



text \<open>A \<^verbatim>\<open>tools/call\<close> of \<^verbatim>\<open>ask_rag\<close> runs the \<^verbatim>\<open>ask_rag\<close> branch inside the \<^verbatim>\<open>try\<close>.\<close>

lemma handler_ask_rag:
  assumes "get req_body ''method'' = JStr ''tools/call''"
    and "get (get req_body ''params'') ''name'' = JStr ''ask_rag''"
  shows "handler w req_body =
     top_level_catch w req_body
       (ask_rag w (get req_body ''id'') (get (get req_body ''params'') ''arguments''))"
  using assms get_JStr_not_nullish [OF assms(1)] get_JStr_not_nullish [OF assms(2)]
  by (simp add: handler_def dispatch_def tools_call_def Let_def)

lemma catch_events:
  "\<not> nullish req_body \<Longrightarrow> top_level_catch w req_body (evs, r) =
     (case r of
        None \<Rightarrow> (evs, None)
      | Some e \<Rightarrow>
          (evs @ [ResJson (Envelope ''2.0'' (get req_body ''id'')
                    (RpcError (- 32603) (message w e)))], None))"
  by (simp add: top_level_catch_def split: option.splits)














lemma sublist_answer_text:
  "sublist q (answer_text q m a) \<and> sublist m (answer_text q m a) \<and>
   sublist a (answer_text q m a)"
proof (intro conjI)
  show "sublist q (answer_text q m a)"
    unfolding answer_text_def sublist_def by (rule exI [of _ "''Question: ''"]) auto
  show "sublist m (answer_text q m a)"
    unfolding answer_text_def sublist_def
    by (rule exI [of _ "''Question: '' @ q @ [CHR 0x0A] @ ''Mode: ''"]) auto
  show "sublist a (answer_text q m a)"
    unfolding answer_text_def sublist_def
    by (rule exI [of _ "''Question: '' @ q @ [CHR 0x0A] @ ''Mode: '' @ m @ [CHR 0x0A, CHR 0x0A]
                         @ ''Answer:'' @ [CHR 0x0A]"]) auto
qed

lemma call_ask_rag_fields:
  "get (call_ask_rag a) ''method'' = JStr ''tools/call''"
  "get (get (call_ask_rag a) ''params'') ''name'' = JStr ''ask_rag''"
  "get (get (call_ask_rag a) ''params'') ''arguments'' = a"
  "get (call_ask_rag a) ''id'' = JNum ''1''"
  by (simp_all add: call_ask_rag_def request_def get_def)






subsection \<open>Sample runs\<close>

lemma run_paid_42:
  "handler world_paid (call_ask_rag args_42) =
     ([RequirePayment (BigNumber (1 / 100)),
       Fetch ''http://localhost:8000/ask/'' args_42,
       ResJson (Envelope ''2.0'' (JNum ''1'')
         (RpcResult (JObj [(''content'',
            JArr [JObj [(''type'', JStr ''text''),
                        (''text'', JStr (''Question: What is the answer?'' @ [CHR 0x0A] @ ''Mode: qa'' @ [CHR 0x0A, CHR 0x0A] @ ''Answer:'' @ [CHR 0x0A] @ ''42''))]])])))],
      None)"
  by (simp add: run_defs)

lemma run_denied_42:
  "handler world_denied (call_ask_rag args_42) =
     ([RequirePayment (BigNumber (1 / 100)),
       ResJson (Envelope ''2.0'' (JNum ''1'')
         (RpcError (- 32603) ''Payment failed: Payment required''))],
      None)"
  by (simp add: run_defs)

lemma run_backend_500_42:
  "handler world_backend_500 (call_ask_rag args_42) =
     ([RequirePayment (BigNumber (1 / 100)),
       Fetch ''http://localhost:8000/ask/'' args_42,
       ResJson (Envelope ''2.0'' (JNum ''1'')
         (RpcError (- 32603) ''RAG backend returned 500''))],
      None)"
  by (simp add: run_defs show_nat_500)

subsection \<open>The payment gate\<close>

text \<open>
  C1, as the handler has it. For every \<^verbatim>\<open>tools/call\<close> of \<^verbatim>\<open>ask_rag\<close>: the backend
  is requested only in a run that starts with a payment request that succeeded; when
  \<^verbatim>\<open>requirePayment\<close> throws, the run is that payment request and the envelope with
  code -32603 and the message \<^verbatim>\<open>Payment failed: \<close> followed by the message of
  what was thrown, and nothing else, so the backend is not requested; when
  \<^verbatim>\<open>requirePayment\<close> succeeds and \<^verbatim>\<open>question\<close> converts to a string (every string,
  number, boolean, \<^verbatim>\<open>null\<close> and absent question does), exactly one backend
  request follows it.
\<close>

theorem payment_gate:
  assumes "get req_body ''method'' = JStr ''tools/call''"
    and "get (get req_body ''params'') ''name'' = JStr ''ask_rag''"
    and "handler w req_body = (evs, r)"
  shows "(\<forall>u b. Fetch u b \<in> set evs \<longrightarrow>
            (\<exists>p. hd evs = RequirePayment p \<and> requirePayment w p = None)) \<and>
         (\<forall>p e. RequirePayment p \<in> set evs \<longrightarrow> requirePayment w p = Some e \<longrightarrow>
            evs = [RequirePayment p,
                   ResJson (Envelope ''2.0'' (get req_body ''id'')
                     (RpcError (- 32603) (''Payment failed: '' @ message w e)))]) \<and>
         (\<forall>p q. RequirePayment p \<in> set evs \<longrightarrow> requirePayment w p = None \<longrightarrow>
            to_string (get (get (get req_body ''params'') ''arguments'') ''question'') = Inr q \<longrightarrow>
            (\<exists>payload rest. evs = RequirePayment p # Fetch RAG_ASK_ENDPOINT payload # rest \<and>
               filter is_fetch rest = []))"
proof -
  let ?args = "get (get req_body ''params'') ''arguments''"
  let ?rid = "get req_body ''id''"
  obtain evs0 r0 where a: "ask_rag w ?rid ?args = (evs0, r0)" by (cases "ask_rag w ?rid ?args")
  have b: "\<not> nullish req_body" using assms(1) by (rule get_JStr_not_nullish)
  have h: "top_level_catch w req_body (evs0, r0) = (evs, r)"
    using handler_ask_rag [OF assms(1,2), of w] a assms(3) by simp
  show ?thesis
  proof (cases "nullish ?args")
    case True
    then have "evs0 = []" "r0 \<noteq> None" using a by (auto simp: ask_rag_def)
    then show ?thesis using h b by (auto simp: catch_events)
  next
    case False
    from ask_rag_shape [OF a False] show ?thesis
    proof (elim disjE exE conjE)
      fix e assume "evs0 = []" "r0 = Some e"
      then show ?thesis using h b by (auto simp: catch_events)
    next
      fix p e assume "requirePayment w p = Some e" "r0 = None"
        "evs0 = [RequirePayment p, ResJson (Envelope ''2.0'' ?rid (RpcError (- 32603) (''Payment failed: '' @ message w e)))]"
      then show ?thesis using h b by (auto simp: catch_events)
    next
      fix p evs' assume p: "requirePayment w p = None" "evs0 = RequirePayment p # evs'"
        and f: "forward w ?rid (get ?args ''question'') (resolved_mode ?args) = (evs', r0)"
      from forward_shape [OF f] p h b show ?thesis
        by (auto simp: catch_events)
    qed
  qed
qed

theorem payment_gate_witness:
  "get (call_ask_rag args_42) ''method'' = JStr ''tools/call'' \<and>
   get (get (call_ask_rag args_42) ''params'') ''name'' = JStr ''ask_rag'' \<and>
   Fetch RAG_ASK_ENDPOINT args_42 \<in> set (fst (handler world_paid (call_ask_rag args_42))) \<and>
   hd (fst (handler world_paid (call_ask_rag args_42))) = RequirePayment (BigNumber (1 / 100)) \<and>
   requirePayment world_paid (BigNumber (1 / 100)) = None \<and>
   requirePayment world_denied (BigNumber (1 / 100)) = Some (Error ''Payment required'') \<and>
   fst (handler world_denied (call_ask_rag args_42)) =
     [RequirePayment (BigNumber (1 / 100)),
      ResJson (Envelope ''2.0'' (JNum ''1'')
        (RpcError (- 32603) ''Payment failed: Payment required''))] \<and>
   (\<exists>payload rest.
      fst (handler world_paid (call_ask_rag args_42)) =
        RequirePayment (BigNumber (1 / 100)) # Fetch RAG_ASK_ENDPOINT payload # rest \<and>
      filter is_fetch rest = [])"
proof -
  have m: "get (call_ask_rag args_42) ''method'' = JStr ''tools/call''"
    by (simp add: run_defs)
  have n: "get (get (call_ask_rag args_42) ''params'') ''name'' = JStr ''ask_rag''"
    by (simp add: run_defs)
  have q: "to_string (get (get (get (call_ask_rag args_42) ''params'') ''arguments'') ''question'')
             = Inr ''What is the answer?''"
    by (simp add: run_defs)
  have paid: "requirePayment world_paid (BigNumber (1 / 100)) = None"
    by (simp add: world_paid_def)
  have denied: "requirePayment world_denied (BigNumber (1 / 100)) = Some (Error ''Payment required'')"
    by (simp add: world_denied_def)
  have inp: "RequirePayment (BigNumber (1 / 100)) \<in> set (fst (handler world_paid (call_ask_rag args_42)))"
    by (simp add: run_paid_42)
  have ind: "RequirePayment (BigNumber (1 / 100)) \<in> set (fst (handler world_denied (call_ask_rag args_42)))"
    by (simp add: run_denied_42)
  have inf: "Fetch RAG_ASK_ENDPOINT args_42 \<in> set (fst (handler world_paid (call_ask_rag args_42)))"
    by (simp add: run_paid_42 RAG_ASK_ENDPOINT_def RAG_BASE_URL_def)
  note g = payment_gate [OF m n prod.collapse [symmetric], of world_paid]
  note d = payment_gate [OF m n prod.collapse [symmetric], of world_denied]
  from g inf paid have 1: "hd (fst (handler world_paid (call_ask_rag args_42))) = RequirePayment (BigNumber (1 / 100))"
    by (simp add: run_paid_42)
  from d ind denied have 2: "fst (handler world_denied (call_ask_rag args_42)) =
     [RequirePayment (BigNumber (1 / 100)),
      ResJson (Envelope ''2.0'' (JNum ''1'')
        (RpcError (- 32603) ''Payment failed: Payment required''))]"
    by (simp add: run_denied_42)
  from g inp paid q have 3: "\<exists>payload rest.
      fst (handler world_paid (call_ask_rag args_42)) =
        RequirePayment (BigNumber (1 / 100)) # Fetch RAG_ASK_ENDPOINT payload # rest \<and>
      filter is_fetch rest = []"
    by blast
  from m n inf 1 paid denied 2 3 show ?thesis by blast
qed

text \<open>
  C1 as the spec words it has no condition on \<^verbatim>\<open>question\<close>. With the question
  \<^verbatim>\<open>{ "toString": 1 }\<close> the payment succeeds, the template of the log line before
  \<^verbatim>\<open>fetch\<close> throws a \<^verbatim>\<open>TypeError\<close>, the outer \<^verbatim>\<open>catch\<close> replies, and the backend
  is never requested.
\<close>

theorem payment_gate_counterexample:
  "requirePayment world_paid (BigNumber (5 / 100)) = None \<and>
   handler world_paid (call_ask_rag args_unprintable) =
     ([RequirePayment (BigNumber (5 / 100)),
       ResJson (Envelope ''2.0'' (JNum ''1'')
         (RpcError (- 32603) ''Cannot convert object to primitive value''))],
      None) \<and>
   filter is_fetch (fst (handler world_paid (call_ask_rag args_unprintable))) = []"
  by (simp add: run_defs args_unprintable_def)

subsection \<open>The amount requested\<close>

text \<open>
  C2. For every \<^verbatim>\<open>tools/call\<close> of \<^verbatim>\<open>ask_rag\<close> whose mode resolves to \<^verbatim>\<open>qa\<close>,
  \<^verbatim>\<open>summary\<close> or \<^verbatim>\<open>auto\<close>, the run starts with the payment request, the amount is
  the entry of the price table for that mode (0.01 for \<^verbatim>\<open>qa\<close>, 0.05 for the other
  two), and no other payment request follows: the request is made once, before any
  backend call.
\<close>

theorem payment_amount:
  assumes "get req_body ''method'' = JStr ''tools/call''"
    and "get (get req_body ''params'') ''name'' = JStr ''ask_rag''"
    and "\<not> nullish (get (get req_body ''params'') ''arguments'')"
    and "resolved_mode (get (get req_body ''params'') ''arguments'') = JStr m"
    and "m \<in> {''qa'', ''summary'', ''auto''}"
  shows "\<exists>amount rest.
           map_of price_table m = Some (BigNumber amount) \<and>
           amount = (if m = ''qa'' then 1 / 100 else 5 / 100) \<and>
           fst (handler w req_body) = RequirePayment (BigNumber amount) # rest \<and>
           filter is_payment rest = []"
proof -
  let ?args = "get (get req_body ''params'') ''arguments''"
  let ?rid = "get req_body ''id''"
  let ?amount = "if m = ''qa'' then 1 / 100 else 5 / (100::rat)"
  obtain evs0 r0 where a: "ask_rag w ?rid ?args = (evs0, r0)" by (cases "ask_rag w ?rid ?args")
  have b: "\<not> nullish req_body" using assms(1) by (rule get_JStr_not_nullish)
  have t: "map_of price_table m = Some (BigNumber ?amount)"
    using assms(5) by (auto simp: price_table_def)
  have pr: "prices (resolved_mode ?args) = Inr (BigNumber ?amount)"
    using t assms(4) by (simp add: prices_def)
  have h: "handler w req_body = top_level_catch w req_body (evs0, r0)"
    using handler_ask_rag [OF assms(1,2), of w] a by simp
  from ask_rag_shape [OF a assms(3)] pr
  have "\<exists>rest. fst (handler w req_body) = RequirePayment (BigNumber ?amount) # rest \<and>
           filter is_payment rest = []"
  proof (elim disjE exE conjE)
    fix e assume "prices (resolved_mode ?args) = Inl e"
    with pr show ?thesis by simp
  next
    fix p e assume "prices (resolved_mode ?args) = Inr p" "r0 = None"
      "evs0 = [RequirePayment p, ResJson (Envelope ''2.0'' ?rid (RpcError (- 32603) (''Payment failed: '' @ message w e)))]"
    with pr h b show ?thesis by (auto simp: catch_events)
  next
    fix p evs' assume p: "prices (resolved_mode ?args) = Inr p" "evs0 = RequirePayment p # evs'"
      and f: "forward w ?rid (get ?args ''question'') (resolved_mode ?args) = (evs', r0)"
    from forward_shape [OF f] p pr h b show ?thesis
      by (auto simp: catch_events)
  qed
  with t show ?thesis by blast
qed

theorem payment_amount_witness:
  "get (call_ask_rag args_42) ''method'' = JStr ''tools/call'' \<and>
   get (get (call_ask_rag args_42) ''params'') ''name'' = JStr ''ask_rag'' \<and>
   \<not> nullish (get (get (call_ask_rag args_42) ''params'') ''arguments'') \<and>
   resolved_mode (get (get (call_ask_rag args_42) ''params'') ''arguments'') = JStr ''qa'' \<and>
   (\<exists>rest. fst (handler world_paid (call_ask_rag args_42)) =
              RequirePayment (BigNumber (1 / 100)) # rest \<and>
            filter is_payment rest = [])"
proof -
  have m: "get (call_ask_rag args_42) ''method'' = JStr ''tools/call''"
    by (simp add: run_defs)
  have n: "get (get (call_ask_rag args_42) ''params'') ''name'' = JStr ''ask_rag''"
    by (simp add: run_defs)
  have a: "\<not> nullish (get (get (call_ask_rag args_42) ''params'') ''arguments'')"
    by (simp add: run_defs)
  have r: "resolved_mode (get (get (call_ask_rag args_42) ''params'') ''arguments'') = JStr ''qa''"
    by (simp add: run_defs)
  have i: "''qa'' \<in> {''qa'', ''summary'', ''auto''}"
    by simp
  from payment_amount [OF m n a r i, of world_paid]
  have "\<exists>rest. fst (handler world_paid (call_ask_rag args_42)) =
              RequirePayment (BigNumber (1 / 100)) # rest \<and>
            filter is_payment rest = []"
    by auto
  with m n a r show ?thesis by blast
qed

subsection \<open>No validation of the arguments\<close>




subsection \<open>Payment failures and backend failures\<close>

text \<open>
  C4, as the handler has it. For every \<^verbatim>\<open>tools/call\<close> of \<^verbatim>\<open>ask_rag\<close> that reaches
  the payment: when \<^verbatim>\<open>requirePayment\<close> throws, the backend is not requested and the
  one envelope has the code -32603 and the message \<^verbatim>\<open>Payment failed: \<close> followed by
  the reason; when the payment succeeds and the backend answers with a status that is
  not 2xx, the payment was requested once and the one envelope has the same code
  -32603 and the message \<^verbatim>\<open>RAG backend returned \<close> followed by the status. The two
  are told apart by the text of the message only, which is never the same for both.
\<close>

theorem failure_domains:
  assumes "get req_body ''method'' = JStr ''tools/call''"
    and "get (get req_body ''params'') ''name'' = JStr ''ask_rag''"
    and "\<not> nullish (get (get req_body ''params'') ''arguments'')"
    and "prices (resolved_mode (get (get req_body ''params'') ''arguments'')) = Inr p"
    and "handler w req_body = (evs, r)"
  shows "(\<forall>e. requirePayment w p = Some e \<longrightarrow>
            filter is_fetch evs = [] \<and>
            envelopes evs =
              [Envelope ''2.0'' (get req_body ''id'')
                 (RpcError (- 32603) (''Payment failed: '' @ message w e))]) \<and>
         (\<forall>q response.
            requirePayment w p = None \<longrightarrow>
            to_string (get (get (get req_body ''params'') ''arguments'') ''question'') = Inr q \<longrightarrow>
            fetch w RAG_ASK_ENDPOINT
              (stringify_object
                 [(''question'', get (get (get req_body ''params'') ''arguments'') ''question''),
                  (''mode'', resolved_mode (get (get req_body ''params'') ''arguments''))]) =
              Inr response \<longrightarrow>
            \<not> ok response \<longrightarrow>
            length (filter is_payment evs) = 1 \<and>
            envelopes evs =
              [Envelope ''2.0'' (get req_body ''id'')
                 (RpcError (- 32603) (''RAG backend returned '' @ show_nat (status response)))]) \<and>
         (\<forall>x y. ''Payment failed: '' @ x \<noteq> ''RAG backend returned '' @ y)"
proof -
  let ?args = "get (get req_body ''params'') ''arguments''"
  let ?rid = "get req_body ''id''"
  have b: "\<not> nullish req_body" using assms(1) by (rule get_JStr_not_nullish)
  note h = handler_ask_rag [OF assms(1,2), of w]
  have denied: "\<forall>e. requirePayment w p = Some e \<longrightarrow>
            filter is_fetch evs = [] \<and>
            envelopes evs =
              [Envelope ''2.0'' ?rid (RpcError (- 32603) (''Payment failed: '' @ message w e))]"
  proof (intro allI impI)
    fix e assume "requirePayment w p = Some e"
    then have "ask_rag w ?rid ?args =
      ([RequirePayment p,
        ResJson (Envelope ''2.0'' ?rid (RpcError (- 32603) (''Payment failed: '' @ message w e)))],
       None)"
      using assms(3,4) by (simp add: ask_rag_def Let_def)
    with h assms(5) b show "filter is_fetch evs = [] \<and>
            envelopes evs =
              [Envelope ''2.0'' ?rid (RpcError (- 32603) (''Payment failed: '' @ message w e))]"
      by (auto simp: catch_events)
  qed
  have backend: "\<forall>q response.
            requirePayment w p = None \<longrightarrow>
            to_string (get ?args ''question'') = Inr q \<longrightarrow>
            fetch w RAG_ASK_ENDPOINT
              (stringify_object [(''question'', get ?args ''question''),
                  (''mode'', resolved_mode ?args)]) = Inr response \<longrightarrow>
            \<not> ok response \<longrightarrow>
            length (filter is_payment evs) = 1 \<and>
            envelopes evs =
              [Envelope ''2.0'' ?rid
                 (RpcError (- 32603) (''RAG backend returned '' @ show_nat (status response)))]"
  proof (intro allI impI)
    fix q response
    assume pay: "requirePayment w p = None"
      and q: "to_string (get ?args ''question'') = Inr q"
      and f: "fetch w RAG_ASK_ENDPOINT
              (stringify_object [(''question'', get ?args ''question''),
                  (''mode'', resolved_mode ?args)]) = Inr response"
      and nok: "\<not> ok response"
    have "forward w ?rid (get ?args ''question'') (resolved_mode ?args) =
      ([Fetch RAG_ASK_ENDPOINT
          (stringify_object [(''question'', get ?args ''question''), (''mode'', resolved_mode ?args)])],
       Some (Error (''RAG backend returned '' @ show_nat (status response))))"
      using q f nok by (simp add: forward_def Let_def)
    then have "ask_rag w ?rid ?args =
      ([RequirePayment p,
        Fetch RAG_ASK_ENDPOINT
          (stringify_object [(''question'', get ?args ''question''), (''mode'', resolved_mode ?args)])],
       Some (Error (''RAG backend returned '' @ show_nat (status response))))"
      using assms(3,4) pay by (simp add: ask_rag_def Let_def)
    with h assms(5) b show "length (filter is_payment evs) = 1 \<and>
            envelopes evs =
              [Envelope ''2.0'' ?rid
                 (RpcError (- 32603) (''RAG backend returned '' @ show_nat (status response)))]"
      by (auto simp: catch_events message_def)
  qed
  have "\<forall>x y. ''Payment failed: '' @ x \<noteq> ''RAG backend returned '' @ y"
    by simp
  with denied backend show ?thesis by blast
qed

theorem failure_domains_witness:
  "get (call_ask_rag args_42) ''method'' = JStr ''tools/call'' \<and>
   get (get (call_ask_rag args_42) ''params'') ''name'' = JStr ''ask_rag'' \<and>
   \<not> nullish (get (get (call_ask_rag args_42) ''params'') ''arguments'') \<and>
   prices (resolved_mode (get (get (call_ask_rag args_42) ''params'') ''arguments'')) =
     Inr (BigNumber (1 / 100)) \<and>
   requirePayment world_denied (BigNumber (1 / 100)) = Some (Error ''Payment required'') \<and>
   filter is_fetch (fst (handler world_denied (call_ask_rag args_42))) = [] \<and>
   envelopes (fst (handler world_denied (call_ask_rag args_42))) =
     [Envelope ''2.0'' (JNum ''1'') (RpcError (- 32603) ''Payment failed: Payment required'')] \<and>
   requirePayment world_backend_500 (BigNumber (1 / 100)) = None \<and>
   to_string (get (get (get (call_ask_rag args_42) ''params'') ''arguments'') ''question'') =
     Inr ''What is the answer?'' \<and>
   fetch world_backend_500 RAG_ASK_ENDPOINT
     (stringify_object
        [(''question'', get (get (get (call_ask_rag args_42) ''params'') ''arguments'') ''question''),
         (''mode'', resolved_mode (get (get (call_ask_rag args_42) ''params'') ''arguments''))]) =
     Inr \<lparr> status = 500, json = Inl (Error ''invalid json'') \<rparr> \<and>
   \<not> ok \<lparr> status = 500, json = Inl (Error ''invalid json'') \<rparr> \<and>
   length (filter is_payment (fst (handler world_backend_500 (call_ask_rag args_42)))) = 1 \<and>
   envelopes (fst (handler world_backend_500 (call_ask_rag args_42))) =
     [Envelope ''2.0'' (JNum ''1'') (RpcError (- 32603) ''RAG backend returned 500'')]"
proof -
  let ?c = "call_ask_rag args_42"
  let ?resp = "\<lparr> status = 500, json = Inl (Error ''invalid json'') \<rparr>"
  have na: "\<not> nullish (get (get ?c ''params'') ''arguments'')"
    by (simp add: run_defs)
  have pr: "prices (resolved_mode (get (get ?c ''params'') ''arguments'')) = Inr (BigNumber (1 / 100))"
    by (simp add: run_defs)
  have denied: "requirePayment world_denied (BigNumber (1 / 100)) = Some (Error ''Payment required'')"
    by (simp add: world_denied_def)
  have paid: "requirePayment world_backend_500 (BigNumber (1 / 100)) = None"
    by (simp add: world_backend_500_def)
  have q: "to_string (get (get (get ?c ''params'') ''arguments'') ''question'') =
     Inr ''What is the answer?''"
    by (simp add: run_defs)
  have f: "fetch world_backend_500 RAG_ASK_ENDPOINT
     (stringify_object
        [(''question'', get (get (get ?c ''params'') ''arguments'') ''question''),
         (''mode'', resolved_mode (get (get ?c ''params'') ''arguments''))]) = Inr ?resp"
    by (simp add: world_backend_500_def)
  have nok: "\<not> ok ?resp"
    by (simp add: ok_def)
  have msg: "message world_denied (Error ''Payment required'') = ''Payment required''"
    by (simp add: message_def)
  note d = failure_domains
    [OF call_ask_rag_fields(1) call_ask_rag_fields(2) na pr prod.collapse [symmetric], of world_denied]
  note b = failure_domains
    [OF call_ask_rag_fields(1) call_ask_rag_fields(2) na pr prod.collapse [symmetric],
      of world_backend_500]
  from d denied have "filter is_fetch (fst (handler world_denied ?c)) = [] \<and>
     envelopes (fst (handler world_denied ?c)) =
       [Envelope ''2.0'' (get ?c ''id'')
          (RpcError (- 32603) (''Payment failed: '' @ message world_denied (Error ''Payment required'')))]"
    by blast
  then have 1: "filter is_fetch (fst (handler world_denied ?c)) = []"
    "envelopes (fst (handler world_denied ?c)) =
       [Envelope ''2.0'' (JNum ''1'') (RpcError (- 32603) ''Payment failed: Payment required'')]"
    by (simp_all add: msg call_ask_rag_fields)
  from b paid q f nok have "length (filter is_payment (fst (handler world_backend_500 ?c))) = 1 \<and>
     envelopes (fst (handler world_backend_500 ?c)) =
       [Envelope ''2.0'' (get ?c ''id'')
          (RpcError (- 32603) (''RAG backend returned '' @ show_nat (status ?resp)))]"
    by blast
  then have 2: "length (filter is_payment (fst (handler world_backend_500 ?c))) = 1"
    "envelopes (fst (handler world_backend_500 ?c)) =
       [Envelope ''2.0'' (JNum ''1'') (RpcError (- 32603) ''RAG backend returned 500'')]"
    by (simp_all add: show_nat_500 call_ask_rag_fields)
  from call_ask_rag_fields(1) [of args_42] call_ask_rag_fields(2) [of args_42]
    na pr denied 1 paid q f nok 2
  show ?thesis by blast
qed

text \<open>
  C4 as the spec words it asks for distinct numeric categories. A denied payment and a
  backend answering 500 both give the code -32603.
\<close>

theorem failure_domains_counterexample:
  "error_codes (envelopes (fst (handler world_denied (call_ask_rag args_42)))) = [- 32603] \<and>
   error_codes (envelopes (fst (handler world_backend_500 (call_ask_rag args_42)))) = [- 32603]"
  by (simp add: run_denied_42 run_backend_500_42)

subsection \<open>Every request is answered\<close>




subsection \<open>The id of the request is echoed\<close>



subsection \<open>The list of tools\<close>



subsection \<open>The text of the answer\<close>

text \<open>
  C8. For every question that is a string, when the payment succeeds and the backend
  answers 2xx with a body whose \<^verbatim>\<open>mode\<close> and \<^verbatim>\<open>answer\<close> are strings, the response
  is a result with a single content block of type \<^verbatim>\<open>text\<close>, and its text contains
  the question, the mode of the backend and the answer, each as it is.
\<close>

theorem answer_round_trip:
  assumes "get req_body ''method'' = JStr ''tools/call''"
    and "get (get req_body ''params'') ''name'' = JStr ''ask_rag''"
    and "get (get (get req_body ''params'') ''arguments'') ''question'' = JStr q"
    and "prices (resolved_mode (get (get req_body ''params'') ''arguments'')) = Inr p"
    and "requirePayment w p = None"
    and "fetch w RAG_ASK_ENDPOINT
           (stringify_object
              [(''question'', JStr q),
               (''mode'', resolved_mode (get (get req_body ''params'') ''arguments''))]) =
         Inr response"
    and "ok response"
    and "json response = Inr data"
    and "get data ''mode'' = JStr m"
    and "get data ''answer'' = JStr a"
  shows "\<exists>payload text.
           handler w req_body =
             ([RequirePayment p, Fetch RAG_ASK_ENDPOINT payload,
               ResJson (Envelope ''2.0'' (get req_body ''id'')
                 (RpcResult (JObj [(''content'',
                    JArr [JObj [(''type'', JStr ''text''), (''text'', JStr text)]])])))],
              None) \<and>
           text = answer_text q m a \<and>
           sublist q text \<and> sublist m text \<and> sublist a text"
proof -
  let ?args = "get (get req_body ''params'') ''arguments''"
  have na: "\<not> nullish ?args" using assms(3) by (rule get_JStr_not_nullish)
  have nd: "\<not> nullish data" using assms(9) by (rule get_JStr_not_nullish)
  have f: "forward w (get req_body ''id'') (JStr q) (resolved_mode ?args) =
     ([Fetch RAG_ASK_ENDPOINT
         (stringify_object [(''question'', JStr q), (''mode'', resolved_mode ?args)]),
       ResJson (Envelope ''2.0'' (get req_body ''id'')
         (RpcResult (JObj [(''content'',
            JArr [JObj [(''type'', JStr ''text''),
                        (''text'', JStr (answer_text q m a))]])])))], None)"
    using assms(6-10) nd by (simp add: forward_def Let_def)
  have "ask_rag w (get req_body ''id'') ?args =
     ([RequirePayment p,
       Fetch RAG_ASK_ENDPOINT
         (stringify_object [(''question'', JStr q), (''mode'', resolved_mode ?args)]),
       ResJson (Envelope ''2.0'' (get req_body ''id'')
         (RpcResult (JObj [(''content'',
            JArr [JObj [(''type'', JStr ''text''),
                        (''text'', JStr (answer_text q m a))]])])))], None)"
    using na assms(3-5) f by (simp add: ask_rag_def Let_def)
  then have "handler w req_body =
     ([RequirePayment p,
       Fetch RAG_ASK_ENDPOINT
         (stringify_object [(''question'', JStr q), (''mode'', resolved_mode ?args)]),
       ResJson (Envelope ''2.0'' (get req_body ''id'')
         (RpcResult (JObj [(''content'',
            JArr [JObj [(''type'', JStr ''text''),
                        (''text'', JStr (answer_text q m a))]])])))], None)"
    using handler_ask_rag [OF assms(1,2), of w] by (simp add: top_level_catch_def)
  with sublist_answer_text [of q m a] show ?thesis by blast
qed

theorem answer_round_trip_witness:
  "get (call_ask_rag args_42) ''method'' = JStr ''tools/call'' \<and>
   get (get (call_ask_rag args_42) ''params'') ''name'' = JStr ''ask_rag'' \<and>
   get (get (get (call_ask_rag args_42) ''params'') ''arguments'') ''question'' =
     JStr ''What is the answer?'' \<and>
   prices (resolved_mode (get (get (call_ask_rag args_42) ''params'') ''arguments'')) =
     Inr (BigNumber (1 / 100)) \<and>
   requirePayment world_paid (BigNumber (1 / 100)) = None \<and>
   fetch world_paid RAG_ASK_ENDPOINT
     (stringify_object
        [(''question'', JStr ''What is the answer?''),
         (''mode'', resolved_mode (get (get (call_ask_rag args_42) ''params'') ''arguments''))]) =
     Inr \<lparr> status = 200,
           json = Inr (JObj [(''mode'', JStr ''qa''), (''answer'', JStr ''42'')]) \<rparr> \<and>
   ok \<lparr> status = 200,
        json = Inr (JObj [(''mode'', JStr ''qa''), (''answer'', JStr ''42'')]) \<rparr> \<and>
   get (JObj [(''mode'', JStr ''qa''), (''answer'', JStr ''42'')]) ''mode'' = JStr ''qa'' \<and>
   get (JObj [(''mode'', JStr ''qa''), (''answer'', JStr ''42'')]) ''answer'' = JStr ''42'' \<and>
   (\<exists>payload.
      handler world_paid (call_ask_rag args_42) =
        ([RequirePayment (BigNumber (1 / 100)), Fetch RAG_ASK_ENDPOINT payload,
          ResJson (Envelope ''2.0'' (JNum ''1'')
            (RpcResult (JObj [(''content'',
               JArr [JObj [(''type'', JStr ''text''),
                           (''text'', JStr (answer_text ''What is the answer?'' ''qa'' ''42''))]])])))],
         None)) \<and>
   sublist ''What is the answer?'' (answer_text ''What is the answer?'' ''qa'' ''42'') \<and>
   sublist ''qa'' (answer_text ''What is the answer?'' ''qa'' ''42'') \<and>
   sublist ''42'' (answer_text ''What is the answer?'' ''qa'' ''42'')"
proof -
  let ?c = "call_ask_rag args_42"
  let ?data = "JObj [(''mode'', JStr ''qa''), (''answer'', JStr ''42'')]"
  let ?resp = "\<lparr> status = 200, json = Inr ?data \<rparr>"
  have q: "get (get (get ?c ''params'') ''arguments'') ''question'' = JStr ''What is the answer?''"
    by (simp add: run_defs)
  have pr: "prices (resolved_mode (get (get ?c ''params'') ''arguments'')) = Inr (BigNumber (1 / 100))"
    by (simp add: run_defs)
  have paid: "requirePayment world_paid (BigNumber (1 / 100)) = None"
    by (simp add: world_paid_def)
  have f: "fetch world_paid RAG_ASK_ENDPOINT
     (stringify_object
        [(''question'', JStr ''What is the answer?''),
         (''mode'', resolved_mode (get (get ?c ''params'') ''arguments''))]) = Inr ?resp"
    by (simp add: world_paid_def backend_42_def)
  have ok: "ok ?resp"
    by (simp add: ok_def)
  have j: "json ?resp = Inr ?data"
    by simp
  have dm: "get ?data ''mode'' = JStr ''qa''" and da: "get ?data ''answer'' = JStr ''42''"
    by (simp_all add: get_def)
  from answer_round_trip
    [OF call_ask_rag_fields(1) call_ask_rag_fields(2) q pr paid f ok j dm da]
  have "(\<exists>payload.
      handler world_paid ?c =
        ([RequirePayment (BigNumber (1 / 100)), Fetch RAG_ASK_ENDPOINT payload,
          ResJson (Envelope ''2.0'' (JNum ''1'')
            (RpcResult (JObj [(''content'',
               JArr [JObj [(''type'', JStr ''text''),
                           (''text'', JStr (answer_text ''What is the answer?'' ''qa'' ''42''))]])])))],
         None)) \<and>
   sublist ''What is the answer?'' (answer_text ''What is the answer?'' ''qa'' ''42'') \<and>
   sublist ''qa'' (answer_text ''What is the answer?'' ''qa'' ''42'') \<and>
   sublist ''42'' (answer_text ''What is the answer?'' ''qa'' ''42'')"
    by (auto simp: call_ask_rag_fields)
  then show ?thesis
    by (intro conjI call_ask_rag_fields q pr paid f ok dm da) blast+
qed

subsection \<open>Unknown tools, unknown methods and the handshake\<close>




subsection \<open>Missing params and missing arguments\<close>




end
